theory Spec2Isabelle
  imports Main
begin

section \<open>Python library behaviour used by the access-control engine\<close>

text \<open>
  Strings are lists of characters with code points 0 to 255. On that range the regular
  expression class \<open>\d\<close> of Python matches exactly the ASCII digits.
\<close>

definition is_digit :: "char \<Rightarrow> bool" where
  "is_digit c = (48 \<le> (of_char c :: nat) \<and> (of_char c :: nat) \<le> 57)"

definition digit_val :: "char \<Rightarrow> nat" where
  "digit_val c = of_char c - 48"

definition digit_char :: "nat \<Rightarrow> char" where
  "digit_char n = char_of (48 + n)"

text \<open>Two-digit, zero-padded decimal, as \<open>%H\<close>, \<open>%M\<close> and \<open>%S\<close> print it.\<close>

definition pad2 :: "nat \<Rightarrow> string" where
  "pad2 n = [digit_char (n div 10 mod 10), digit_char (n mod 10)]"

definition hex_char :: "nat \<Rightarrow> char" where
  "hex_char n = (if n < 10 then char_of (48 + n) else char_of (87 + n))"

text \<open>\<open>str.join\<close>.\<close>

fun join :: "string \<Rightarrow> string list \<Rightarrow> string" where
  "join sep [] = []"
| "join sep [x] = x"
| "join sep (x # y # ys) = x @ sep @ join sep (y # ys)"

text \<open>\<open>str.startswith\<close>.\<close>

definition startswith :: "string \<Rightarrow> string \<Rightarrow> bool" where
  "startswith s p = (take (length p) s = p)"

text \<open>
  \<open>repr\<close> of a string: single quotes unless the string holds a single quote and no double
  quote; the quote in use and the backslash are escaped, tab, newline and carriage return
  get their letter, every other unprintable character is written \<open>\xNN\<close>.
\<close>

definition printable :: "char \<Rightarrow> bool" where
  "printable c = (let n = (of_char c :: nat) in
     (32 \<le> n \<and> n \<le> 126) \<or> (161 \<le> n \<and> n \<le> 172) \<or> 174 \<le> n)"

definition repr_char :: "char \<Rightarrow> char \<Rightarrow> string" where
  "repr_char q c =
     (if c = q \<or> c = CHR 0x5C then [CHR 0x5C, c]
      else if c = CHR 0x09 then [CHR 0x5C, CHR ''t'']
      else if c = CHR 0x0A then [CHR 0x5C, CHR ''n'']
      else if c = CHR 0x0D then [CHR 0x5C, CHR ''r'']
      else if printable c then [c]
      else [CHR 0x5C, CHR ''x'', hex_char ((of_char c :: nat) div 16),
            hex_char ((of_char c :: nat) mod 16)])"

definition py_repr :: "string \<Rightarrow> string" where
  "py_repr s =
     (let q = (if CHR 0x27 \<in> set s \<and> CHR 0x22 \<notin> set s then CHR 0x22 else CHR 0x27)
      in q # concat (map (repr_char q) s) @ [q])"

datatype exception = ValueError string | KeyError string

text \<open>\<open>str(e)\<close>: the message of a \<open>ValueError\<close>, the \<open>repr\<close> of the key of a \<open>KeyError\<close>.\<close>

fun str_exception :: "exception \<Rightarrow> string" where
  "str_exception (ValueError msg) = msg"
| "str_exception (KeyError k) = py_repr k"

subsection \<open>\<open>datetime.time\<close>\<close>

record pytime =
  hour :: nat
  minute :: nat
  second :: nat
  microsecond :: nat

text \<open>
  Comparison of two naive \<open>time\<close> objects compares the tuples
  \<open>(hour, minute, second, microsecond)\<close>.
\<close>

definition time_le :: "pytime \<Rightarrow> pytime \<Rightarrow> bool" where
  "time_le a b =
     (hour a < hour b \<or> (hour a = hour b \<and>
       (minute a < minute b \<or> (minute a = minute b \<and>
         (second a < second b \<or> (second a = second b \<and>
           microsecond a \<le> microsecond b))))))"

definition time_lt :: "pytime \<Rightarrow> pytime \<Rightarrow> bool" where
  "time_lt a b = (time_le a b \<and> a \<noteq> b)"

text \<open>\<open>strftime('%H:%M:%S')\<close>.\<close>

definition strftime_HMS :: "pytime \<Rightarrow> string" where
  "strftime_HMS t = pad2 (hour t) @ '':'' @ pad2 (minute t) @ '':'' @ pad2 (second t)"

subsection \<open>\<open>datetime.strptime(s, '%H:%M').time()\<close>\<close>

text \<open>
  \<open>strptime\<close> compiles the format to the regular expression
  \<open>(?P<H>2[0-3]|[0-1]\d|\d):(?P<M>[0-5]\d|\d)\<close>, matches it at the start of the string and
  raises \<open>ValueError\<close> when there is no match or when the match does not reach the end of
  the string. The two functions below list the ways a group can match, in the order the
  regular expression engine tries its alternatives; the first way that lets the whole
  expression match is the one taken.
\<close>

definition match_hour :: "string \<Rightarrow> (nat \<times> string) list" where
  "match_hour s =
     (case s of
        c # d # r \<Rightarrow>
          (if c = CHR ''2'' \<and> d \<in> set ''0123'' then [(20 + digit_val d, r)] else []) @
          (if c \<in> set ''01'' \<and> is_digit d then [(10 * digit_val c + digit_val d, r)] else [])
      | _ \<Rightarrow> []) @
     (case s of c # r \<Rightarrow> if is_digit c then [(digit_val c, r)] else [] | [] \<Rightarrow> [])"

definition match_minute :: "string \<Rightarrow> (nat \<times> string) list" where
  "match_minute s =
     (case s of
        c # d # r \<Rightarrow>
          (if c \<in> set ''012345'' \<and> is_digit d then [(10 * digit_val c + digit_val d, r)] else [])
      | _ \<Rightarrow> []) @
     (case s of c # r \<Rightarrow> if is_digit c then [(digit_val c, r)] else [] | [] \<Rightarrow> [])"

definition match_HM :: "string \<Rightarrow> (nat \<times> nat \<times> string) list" where
  "match_HM s =
     concat (map (\<lambda>(h, r).
       (case r of
          c # r' \<Rightarrow> if c = CHR '':'' then map (\<lambda>(m, r''). (h, m, r'')) (match_minute r') else []
        | [] \<Rightarrow> [])) (match_hour s))"

definition strptime_HM :: "string \<Rightarrow> exception + pytime" where
  "strptime_HM s =
     (case match_HM s of
        [] \<Rightarrow> Inl (ValueError (''time data '' @ py_repr s @ '' does not match format ''
                 @ py_repr ''%H:%M''))
      | (h, m, r) # _ \<Rightarrow>
          if r \<noteq> [] then Inl (ValueError (''unconverted data remains: '' @ r))
          else Inr \<lparr>hour = h, minute = m, second = 0, microsecond = 0\<rparr>)"

section \<open>The store: \<open>database.py\<close>\<close>

text \<open>
  The store holds one policy per file id and the audit log. The JSON files behind it are
  taken to be readable and writable: a read returns what the last write stored. Accounts
  play no part in the access decision and are left out.
\<close>

record file_meta =
  owner :: string
  original_filename :: string
  uploaded_at :: string
  allowed_users :: "string list"
  access_start_time :: string
  access_end_time :: string
  allowed_regions :: "string list"
  encryption_metadata :: "(string \<times> int) list"

text \<open>The \<open>metadata\<close> argument of \<open>save_file_metadata\<close>: a dictionary, every key optional.\<close>

record metadata =
  md_access_start_time :: "string option"
  md_access_end_time :: "string option"
  md_allowed_regions :: "string list option"
  md_encryption_metadata :: "(string \<times> int) list option"

record log_entry =
  log_timestamp :: string
  event_type :: string
  log_username :: string
  log_file_id :: "string option"
  log_ip_address :: "string option"
  log_success :: bool
  details :: "(string \<times> string) list"

record database =
  files :: "string \<rightharpoonup> file_meta"
  audit_logs :: "log_entry list"

record op_result =
  success :: bool
  message :: string

text \<open>\<open>dict.get(key, default)\<close> on an optional key.\<close>

definition get_default :: "'a option \<Rightarrow> 'a \<Rightarrow> 'a" where
  "get_default v d = (case v of None \<Rightarrow> d | Some x \<Rightarrow> x)"

text \<open>The slice \<open>xs[i:]\<close>: a negative \<open>i\<close> counts from the end and is clamped at the start.\<close>

definition slice_from :: "'a list \<Rightarrow> int \<Rightarrow> 'a list" where
  "slice_from xs i =
     (if i < 0 then drop (nat (int (length xs) + i)) xs else drop (nat i) xs)"

text \<open>Truthiness of an optional string argument: \<open>None\<close> and the empty string are false.\<close>

definition truthy :: "string option \<Rightarrow> bool" where
  "truthy v = (case v of None \<Rightarrow> False | Some s \<Rightarrow> s \<noteq> [])"

definition save_file_metadata ::
  "string \<Rightarrow> string \<Rightarrow> string \<Rightarrow> metadata \<Rightarrow> string \<Rightarrow> database \<Rightarrow> op_result \<times> database" where
  "save_file_metadata fid own fname md now db =
     (\<lparr>success = True, message = ''File metadata saved''\<rparr>,
      db\<lparr>files := (files db)(fid \<mapsto>
        \<lparr>owner = own,
         original_filename = fname,
         uploaded_at = now,
         allowed_users = [own],
         access_start_time = get_default (md_access_start_time md) ''09:00'',
         access_end_time = get_default (md_access_end_time md) ''18:00'',
         allowed_regions = get_default (md_allowed_regions md) [''IN'', ''US'', ''GB''],
         encryption_metadata = get_default (md_encryption_metadata md) []\<rparr>)\<rparr>)"

definition get_file_metadata :: "string \<Rightarrow> database \<Rightarrow> file_meta option \<times> database" where
  "get_file_metadata fid db = (files db fid, db)"

definition update_file_access ::
  "string \<Rightarrow> string list option \<Rightarrow> (string \<times> string) option \<Rightarrow> string list option
     \<Rightarrow> database \<Rightarrow> op_result \<times> database" where
  "update_file_access fid users access_times regions db =
     (case files db fid of
        None \<Rightarrow> (\<lparr>success = False, message = ''File not found''\<rparr>, db)
      | Some m \<Rightarrow>
          (let m1 = (case users of None \<Rightarrow> m | Some us \<Rightarrow> m\<lparr>allowed_users := us\<rparr>);
               m2 = (case access_times of None \<Rightarrow> m1
                     | Some (s, e) \<Rightarrow> m1\<lparr>access_start_time := s, access_end_time := e\<rparr>);
               m3 = (case regions of None \<Rightarrow> m2 | Some rs \<Rightarrow> m2\<lparr>allowed_regions := rs\<rparr>)
           in (\<lparr>success = True, message = ''Access control updated''\<rparr>,
               db\<lparr>files := (files db)(fid \<mapsto> m3)\<rparr>)))"

definition log_event ::
  "string \<Rightarrow> string \<Rightarrow> string option \<Rightarrow> (string \<times> string) list option \<Rightarrow> string option
     \<Rightarrow> bool \<Rightarrow> string \<Rightarrow> database \<Rightarrow> database" where
  "log_event etype user fid dets ip ok now db =
     (let entry = \<lparr>log_timestamp = now, event_type = etype, log_username = user,
                   log_file_id = fid, log_ip_address = ip, log_success = ok,
                   details = get_default dets []\<rparr>;
          logs = audit_logs db @ [entry];
          logs' = (if length logs > 1000 then slice_from logs (- 1000) else logs)
      in db\<lparr>audit_logs := logs'\<rparr>)"

definition get_audit_logs ::
  "string option \<Rightarrow> string option \<Rightarrow> int \<Rightarrow> database \<Rightarrow> log_entry list \<times> database" where
  "get_audit_logs user fid limit db =
     (let logs = audit_logs db;
          logs1 = (if truthy user then filter (\<lambda>l. Some (log_username l) = user) logs else logs);
          logs2 = (if truthy fid then filter (\<lambda>l. log_file_id l = fid) logs1 else logs1)
      in (rev (slice_from logs2 (- limit)), db))"

section \<open>The engine: \<open>access_control.py\<close>\<close>

subsection \<open>The geolocation service\<close>

text \<open>
  What \<open>requests.get\<close> on the lookup URL for an address does is a parameter of the model:
  it raises (a timeout or a transport error, given by the text of the exception), or
  returns a response with a status code and a body. The body is a JSON object with string
  fields, or text for which \<open>response.json()\<close> raises.
\<close>

datatype json_body =
  Not_json string
| Json_object "(string \<times> string) list"

datatype http_outcome =
  Request_error string
| Response int json_body

text \<open>
  The dictionary returned by \<open>get_location_from_ip\<close>: with \<open>success\<close> true it carries the
  place (the key \<open>region\<close> only after a lookup), with \<open>success\<close> false a reason.
\<close>

datatype location =
  Located (country_code: string) (country: string) (city: string)
    (region: "string option") (ip: string) (is_local: bool)
| Lookup_failed (failure_reason: string) (failure_ip: string)

definition get_location_from_ip :: "(string \<Rightarrow> http_outcome) \<Rightarrow> string \<Rightarrow> location" where
  "get_location_from_ip lookup ip_addr =
     (if ip_addr \<in> set [''127.0.0.1'', ''localhost''] \<or> startswith ip_addr ''192.168.''
      then Located ''IN'' ''India'' ''Local'' None ip_addr True
      else
        (case lookup ip_addr of
           Request_error e \<Rightarrow> Lookup_failed (''Location lookup failed: '' @ e) ip_addr
         | Response status_code body \<Rightarrow>
             if status_code = 200 then
               (case body of
                  Not_json e \<Rightarrow> Lookup_failed (''Location lookup failed: '' @ e) ip_addr
                | Json_object data \<Rightarrow>
                    (case map_of data ''status'' of
                       None \<Rightarrow>
                         Lookup_failed (''Location lookup failed: ''
                           @ str_exception (KeyError ''status'')) ip_addr
                     | Some st \<Rightarrow>
                         if st = ''success'' then
                           Located (get_default (map_of data ''countryCode'') ''UNKNOWN'')
                             (get_default (map_of data ''country'') ''Unknown'')
                             (get_default (map_of data ''city'') ''Unknown'')
                             (Some (get_default (map_of data ''regionName'') ''Unknown''))
                             ip_addr False
                         else Lookup_failed ''Failed to get location data'' ip_addr))
             else Lookup_failed ''Failed to get location data'' ip_addr))"

subsection \<open>The three gates\<close>

record gate_result =
  allowed :: bool
  reason :: string
  check :: string
  current_time :: "string option"
  location :: "location option"

definition check_user_permission ::
  "string \<Rightarrow> string \<Rightarrow> database \<Rightarrow> gate_result \<times> database" where
  "check_user_permission user fid db =
     (let (file_meta, db1) = get_file_metadata fid db in
      (case file_meta of
         None \<Rightarrow>
           \<lparr>allowed = False, reason = ''File not found'', check = ''file_exists'',
            current_time = None, location = None\<rparr>
       | Some m \<Rightarrow>
           if user \<notin> set (allowed_users m) then
             \<lparr>allowed = False,
              reason = ''User '' @ user @ '' not authorized to access this file'',
              check = ''user_permission'', current_time = None, location = None\<rparr>
           else
             \<lparr>allowed = True, reason = ''User has permission'',
              check = ''user_permission'', current_time = None, location = None\<rparr>,
       db1))"

text \<open>
  The \<open>try\<close> block of \<open>check_time_based_access\<close>: the start is parsed first, and the first
  exception leaves the block.
\<close>

definition parse_window :: "file_meta \<Rightarrow> exception + (pytime \<times> pytime)" where
  "parse_window m =
     (case strptime_HM (access_start_time m) of
        Inl e \<Rightarrow> Inl e
      | Inr start_time \<Rightarrow>
          (case strptime_HM (access_end_time m) of
             Inl e \<Rightarrow> Inl e
           | Inr end_time \<Rightarrow> Inr (start_time, end_time)))"

text \<open>The time of day read from the clock is the argument \<open>now\<close>.\<close>

definition check_time_based_access ::
  "string \<Rightarrow> pytime \<Rightarrow> database \<Rightarrow> gate_result \<times> database" where
  "check_time_based_access fid now db =
     (let (file_meta, db1) = get_file_metadata fid db in
      (case file_meta of
         None \<Rightarrow>
           \<lparr>allowed = False, reason = ''File not found'', check = ''time_based'',
            current_time = None, location = None\<rparr>
       | Some m \<Rightarrow>
           (case parse_window m of
              Inl e \<Rightarrow>
                \<lparr>allowed = False,
                 reason = ''Invalid time format in file metadata: '' @ str_exception e,
                 check = ''time_based'', current_time = None, location = None\<rparr>
            | Inr (start_time, end_time) \<Rightarrow>
                if time_le start_time now \<and> time_le now end_time then
                  \<lparr>allowed = True,
                   reason = ''Access allowed between '' @ access_start_time m @ '' and ''
                     @ access_end_time m,
                   check = ''time_based'', current_time = Some (strftime_HMS now),
                   location = None\<rparr>
                else
                  \<lparr>allowed = False,
                   reason = ''Access only allowed between '' @ access_start_time m @ '' and ''
                     @ access_end_time m,
                   check = ''time_based'', current_time = Some (strftime_HMS now),
                   location = None\<rparr>),
       db1))"

definition check_location_based_access ::
  "string \<Rightarrow> string \<Rightarrow> (string \<Rightarrow> http_outcome) \<Rightarrow> database \<Rightarrow> gate_result \<times> database" where
  "check_location_based_access fid ip_addr lookup db =
     (let (file_meta, db1) = get_file_metadata fid db in
      (case file_meta of
         None \<Rightarrow>
           \<lparr>allowed = False, reason = ''File not found'', check = ''location_based'',
            current_time = None, location = None\<rparr>
       | Some m \<Rightarrow>
           (case get_location_from_ip lookup ip_addr of
              Lookup_failed r a \<Rightarrow>
                \<lparr>allowed = False, reason = r, check = ''location_based'',
                 current_time = None, location = None\<rparr>
            | Located cc cn ct rg a loc \<Rightarrow>
                if cc \<in> set (allowed_regions m) then
                  \<lparr>allowed = True,
                   reason = ''Access allowed from '' @ cn @ '' ('' @ cc @ '')'',
                   check = ''location_based'', current_time = None,
                   location = Some (Located cc cn ct rg a loc)\<rparr>
                else
                  \<lparr>allowed = False,
                   reason = ''Access denied from '' @ cn @ '' ('' @ cc @ ''). Allowed regions: ''
                     @ join '', '' (allowed_regions m),
                   check = ''location_based'', current_time = None,
                   location = Some (Located cc cn ct rg a loc)\<rparr>),
       db1))"

subsection \<open>The orchestrator\<close>

text \<open>\<open>checks\<close> is a dictionary filled in order: a list of entries, oldest first.\<close>

record verdict =
  verdict_allowed :: bool
  username :: string
  file_id :: string
  ip_address :: string
  timestamp :: string
  checks :: "(string \<times> gate_result) list"
  denied_reason :: "string option"
  failed_check :: "string option"
  verdict_message :: "string option"

text \<open>
  \<open>ts\<close> is the clock reading stored in the verdict, \<open>now\<close> the later reading of the time
  gate.
\<close>

definition verify_access ::
  "string \<Rightarrow> string \<Rightarrow> string \<Rightarrow> string \<Rightarrow> pytime \<Rightarrow> (string \<Rightarrow> http_outcome) \<Rightarrow> database
     \<Rightarrow> verdict \<times> database" where
  "verify_access user fid ip_addr ts now lookup db =
     (let r0 = \<lparr>verdict_allowed = False, username = user, file_id = fid,
                ip_address = ip_addr, timestamp = ts, checks = [],
                denied_reason = None, failed_check = None, verdict_message = None\<rparr>;
          (user_check, db1) = check_user_permission user fid db;
          r1 = r0\<lparr>checks := checks r0 @ [(''user_permission'', user_check)]\<rparr>
      in if \<not> allowed user_check then
           (r1\<lparr>denied_reason := Some (reason user_check),
               failed_check := Some ''user_permission''\<rparr>, db1)
         else
           (let (time_check, db2) = check_time_based_access fid now db1;
                r2 = r1\<lparr>checks := checks r1 @ [(''time_based'', time_check)]\<rparr>
            in if \<not> allowed time_check then
                 (r2\<lparr>denied_reason := Some (reason time_check),
                     failed_check := Some ''time_based''\<rparr>, db2)
               else
                 (let (location_check, db3) = check_location_based_access fid ip_addr lookup db2;
                      r3 = r2\<lparr>checks := checks r2 @ [(''location_based'', location_check)]\<rparr>
                  in if \<not> allowed location_check then
                       (r3\<lparr>denied_reason := Some (reason location_check),
                           failed_check := Some ''location_based''\<rparr>, db3)
                     else
                       (r3\<lparr>verdict_allowed := True,
                           verdict_message :=
                             Some ''All Zero-Trust checks passed - Access granted!''\<rparr>, db3))))"

section \<open>Notions used to state the properties\<close>

text \<open>
  The time of day one minute after \<open>t\<close>, when there is one on the same day: the engine
  does same-day arithmetic only, and nothing follows 23:59.
\<close>

definition plus_one_minute :: "pytime \<Rightarrow> pytime option" where
  "plus_one_minute t =
     (if minute t < 59 then Some (t\<lparr>minute := minute t + 1\<rparr>)
      else if hour t < 23 then Some (t\<lparr>hour := hour t + 1, minute := 0\<rparr>)
      else None)"

text \<open>One call of \<open>log_event\<close> with its arguments, and a run of such calls in order.\<close>

record audit_call =
  call_event_type :: string
  call_username :: string
  call_file_id :: "string option"
  call_details :: "(string \<times> string) list option"
  call_ip_address :: "string option"
  call_success :: bool
  call_now :: string

definition log_call :: "audit_call \<Rightarrow> database \<Rightarrow> database" where
  "log_call c db =
     log_event (call_event_type c) (call_username c) (call_file_id c) (call_details c)
       (call_ip_address c) (call_success c) (call_now c) db"

definition entry_of :: "audit_call \<Rightarrow> log_entry" where
  "entry_of c =
     \<lparr>log_timestamp = call_now c, event_type = call_event_type c,
      log_username = call_username c, log_file_id = call_file_id c,
      log_ip_address = call_ip_address c, log_success = call_success c,
      details = get_default (call_details c) []\<rparr>"

definition log_calls :: "audit_call list \<Rightarrow> database \<Rightarrow> database" where
  "log_calls cs db = fold log_call cs db"

subsection \<open>Sample data\<close>

definition example_policy :: file_meta where
  "example_policy =
     \<lparr>owner = ''alice'', original_filename = ''report.pdf'',
      uploaded_at = ''2024-01-01T08:00:00'', allowed_users = [''alice''],
      access_start_time = ''09:00'', access_end_time = ''18:00'',
      allowed_regions = [''IN'', ''US''], encryption_metadata = []\<rparr>"

definition example_db :: database where
  "example_db = \<lparr>files = [''doc'' \<mapsto> example_policy], audit_logs = []\<rparr>"

definition empty_db :: database where
  "empty_db = \<lparr>files = Map.empty, audit_logs = []\<rparr>"

definition at_time :: "nat \<Rightarrow> nat \<Rightarrow> pytime" where
  "at_time h m = \<lparr>hour = h, minute = m, second = 0, microsecond = 0\<rparr>"

definition no_network :: "string \<Rightarrow> http_outcome" where
  "no_network a = Request_error ''connection timed out''"

definition sample_call :: "nat \<Rightarrow> audit_call" where
  "sample_call i =
     \<lparr>call_event_type = ''LOGIN_SUCCESS'', call_username = replicate i (CHR ''u''),
      call_file_id = None, call_details = None, call_ip_address = Some ''127.0.0.1'',
      call_success = True, call_now = ''2024-01-01T08:00:00''\<rparr>"

definition bad_window_db :: database where
  "bad_window_db =
     \<lparr>files = [''doc'' \<mapsto> example_policy\<lparr>access_end_time := ''24:00''\<rparr>], audit_logs = []\<rparr>"

definition no_metadata :: metadata where
  "no_metadata = \<lparr>md_access_start_time = None, md_access_end_time = None,
                   md_allowed_regions = None, md_encryption_metadata = None\<rparr>"

text \<open>The answer of the geolocation service for an address in a private range.\<close>

definition private_range_reply :: "string \<Rightarrow> http_outcome" where
  "private_range_reply a =
     Response 200 (Json_object
       [(''status'', ''fail''), (''message'', ''private range''), (''query'', a)])"

definition two_entry_db :: database where
  "two_entry_db = log_calls [sample_call 0, sample_call 1] empty_db"

section \<open>Properties\<close>

subsection \<open>The gates leave the store as it is\<close>

lemma check_user_permission_db: "snd (check_user_permission user fid db) = db"
  by (simp add: check_user_permission_def get_file_metadata_def)

lemma check_time_based_access_db: "snd (check_time_based_access fid now db) = db"
  by (simp add: check_time_based_access_def get_file_metadata_def)

lemma check_location_based_access_db:
  "snd (check_location_based_access fid ip_addr lookup db) = db"
  by (simp add: check_location_based_access_def get_file_metadata_def)

lemma pair_fst_snd: "snd p = b \<Longrightarrow> p = (fst p, b)"
  by (cases p) simp

text \<open>
  Since no gate changes the store, the orchestrator is a function of the three gate
  results on the store it was given.
\<close>

lemma verify_access_unfold:
  "verify_access user fid ip_addr ts now lookup db =
     (let u = fst (check_user_permission user fid db);
          t = fst (check_time_based_access fid now db);
          l = fst (check_location_based_access fid ip_addr lookup db);
          r0 = \<lparr>verdict_allowed = False, username = user, file_id = fid,
                ip_address = ip_addr, timestamp = ts, checks = [],
                denied_reason = None, failed_check = None, verdict_message = None\<rparr>
      in (if \<not> allowed u then
            r0\<lparr>checks := [(''user_permission'', u)], denied_reason := Some (reason u),
               failed_check := Some ''user_permission''\<rparr>
          else if \<not> allowed t then
            r0\<lparr>checks := [(''user_permission'', u), (''time_based'', t)],
               denied_reason := Some (reason t), failed_check := Some ''time_based''\<rparr>
          else if \<not> allowed l then
            r0\<lparr>checks := [(''user_permission'', u), (''time_based'', t), (''location_based'', l)],
               denied_reason := Some (reason l), failed_check := Some ''location_based''\<rparr>
          else
            r0\<lparr>verdict_allowed := True,
               checks := [(''user_permission'', u), (''time_based'', t), (''location_based'', l)],
               verdict_message := Some ''All Zero-Trust checks passed - Access granted!''\<rparr>,
          db))"
proof -
  have u: "check_user_permission user fid db = (fst (check_user_permission user fid db), db)"
    by (rule pair_fst_snd) (rule check_user_permission_db)
  have t: "check_time_based_access fid now db = (fst (check_time_based_access fid now db), db)"
    by (rule pair_fst_snd) (rule check_time_based_access_db)
  have l: "check_location_based_access fid ip_addr lookup db =
      (fst (check_location_based_access fid ip_addr lookup db), db)"
    by (rule pair_fst_snd) (rule check_location_based_access_db)
  show ?thesis
    unfolding verify_access_def
    apply (subst u)
    apply (simp only: Let_def prod.case)
    apply (subst t)
    apply (simp only: Let_def prod.case)
    apply (subst l)
    apply (simp add: Let_def)
    done
qed

text \<open>
  C10. The three gates and \<open>verify_access\<close> only read: whatever the input, the store they
  return (policies and audit log) is the store they were given. Nothing in the engine
  writes an audit entry; that is left to the caller.
\<close>

theorem gates_read_only:
  "snd (check_user_permission user fid db) = db \<and>
   snd (check_time_based_access fid now db) = db \<and>
   snd (check_location_based_access fid ip_addr lookup db) = db \<and>
   snd (verify_access user fid ip_addr ts now lookup db) = db"
  by (simp add: check_user_permission_db check_time_based_access_db
      check_location_based_access_db verify_access_unfold Let_def)

subsection \<open>Order and short circuit of the orchestrator\<close>

text \<open>
  C1. \<open>verify_access\<close> runs the gates in the order identity, time, region and stops at the
  first one that denies: \<open>checks\<close> then holds the gates run so far, in that order, and
  \<open>denied_reason\<close> and \<open>failed_check\<close> are the reason and the name of the denying gate. The
  verdict allows exactly when each of the three gates allows, and then \<open>checks\<close> holds all
  three results.
\<close>

theorem verify_access_gates:
  "let u = fst (check_user_permission user fid db);
       t = fst (check_time_based_access fid now db);
       l = fst (check_location_based_access fid ip_addr lookup db);
       v = fst (verify_access user fid ip_addr ts now lookup db)
   in (verdict_allowed v \<longleftrightarrow> allowed u \<and> allowed t \<and> allowed l) \<and>
      (\<not> allowed u \<longrightarrow>
         checks v = [(''user_permission'', u)] \<and>
         denied_reason v = Some (reason u) \<and> failed_check v = Some ''user_permission'') \<and>
      (allowed u \<and> \<not> allowed t \<longrightarrow>
         checks v = [(''user_permission'', u), (''time_based'', t)] \<and>
         denied_reason v = Some (reason t) \<and> failed_check v = Some ''time_based'') \<and>
      (allowed u \<and> allowed t \<and> \<not> allowed l \<longrightarrow>
         checks v = [(''user_permission'', u), (''time_based'', t), (''location_based'', l)] \<and>
         denied_reason v = Some (reason l) \<and> failed_check v = Some ''location_based'') \<and>
      (allowed u \<and> allowed t \<and> allowed l \<longrightarrow>
         checks v = [(''user_permission'', u), (''time_based'', t), (''location_based'', l)] \<and>
         denied_reason v = None \<and> failed_check v = None)"
  by (simp add: verify_access_unfold Let_def)

text \<open>
  At 20:00, outside the window of the sample policy, the owner passes the first gate and
  is stopped by the second; the third gate is not run.
\<close>

theorem verify_access_gates_witness:
  "allowed (fst (check_user_permission ''alice'' ''doc'' example_db)) \<and>
   \<not> allowed (fst (check_time_based_access ''doc'' (at_time 20 0) example_db)) \<and>
   \<not> verdict_allowed (fst (verify_access ''alice'' ''doc'' ''127.0.0.1''
       ''2024-01-01T20:00:00'' (at_time 20 0) no_network example_db)) \<and>
   map fst (checks (fst (verify_access ''alice'' ''doc'' ''127.0.0.1''
       ''2024-01-01T20:00:00'' (at_time 20 0) no_network example_db)))
     = [''user_permission'', ''time_based''] \<and>
   failed_check (fst (verify_access ''alice'' ''doc'' ''127.0.0.1''
       ''2024-01-01T20:00:00'' (at_time 20 0) no_network example_db)) = Some ''time_based''"
proof -
  have u: "allowed (fst (check_user_permission ''alice'' ''doc'' example_db))"
    by code_simp
  have t: "\<not> allowed (fst (check_time_based_access ''doc'' (at_time 20 0) example_db))"
    by code_simp
  from u t verify_access_gates [of "''alice''" "''doc''" example_db "at_time 20 0"
      "''127.0.0.1''" no_network "''2024-01-01T20:00:00''"]
  show ?thesis by (simp add: Let_def)
qed

subsection \<open>The time window\<close>

lemma time_le_refl: "time_le a a"
  by (simp add: time_le_def)

lemma time_le_trans: "time_le a b \<Longrightarrow> time_le b c \<Longrightarrow> time_le a c"
  unfolding time_le_def by auto

lemma time_le_antisym: "time_le a b \<Longrightarrow> time_le b a \<Longrightarrow> a = (b::pytime)"
  unfolding time_le_def by (cases a, cases b) auto

lemma plus_one_minute_later: "plus_one_minute e = Some t \<Longrightarrow> \<not> time_le t e"
  unfolding plus_one_minute_def time_le_def by (auto split: if_splits)

text \<open>What \<open>strptime\<close> accepts is a time of day on the 24-hour clock, to the minute.\<close>

lemma is_digit_val: "is_digit c \<Longrightarrow> digit_val c \<le> 9"
  unfolding is_digit_def digit_val_def by arith

lemma match_hour_bound: "(h, r) \<in> set (match_hour s) \<Longrightarrow> h < 24"
  by (auto simp: match_hour_def digit_val_def dest!: is_digit_val
      split: list.splits if_splits)

lemma match_minute_bound: "(m, r) \<in> set (match_minute s) \<Longrightarrow> m < 60"
  by (auto simp: match_minute_def digit_val_def dest!: is_digit_val
      split: list.splits if_splits)

lemma match_HM_bound: "(h, m, r) \<in> set (match_HM s) \<Longrightarrow> h < 24 \<and> m < 60"
  by (auto simp: match_HM_def split: list.splits if_splits
      dest: match_hour_bound match_minute_bound)

lemma strptime_HM_valid:
  assumes "strptime_HM s = Inr t"
  shows "hour t < 24 \<and> minute t < 60 \<and> second t = 0 \<and> microsecond t = 0"
proof (cases "match_HM s")
  case Nil
  with assms show ?thesis by (simp add: strptime_HM_def)
next
  case (Cons x xs)
  obtain h m r where x: "x = (h, m, r)" by (cases x)
  with Cons have "(h, m, r) \<in> set (match_HM s)" by simp
  then have "h < 24 \<and> m < 60" by (rule match_HM_bound)
  with assms Cons x show ?thesis
    by (auto simp: strptime_HM_def split: if_splits)
qed

lemma check_time_based_access_parsed:
  assumes "files db fid = Some m"
    and "strptime_HM (access_start_time m) = Inr s"
    and "strptime_HM (access_end_time m) = Inr e"
  shows "allowed (fst (check_time_based_access fid now db)) \<longleftrightarrow> time_le s now \<and> time_le now e"
  using assms
  by (simp add: check_time_based_access_def get_file_metadata_def parse_window_def)

text \<open>
  C3. For a policy whose window strings parse to \<open>s\<close> and \<open>e\<close>, the time gate allows
  exactly when \<open>s \<le> now \<le> e\<close>, the clock reading compared with its seconds and
  microseconds. So for a window with \<open>s \<le> e\<close> it allows at \<open>s\<close> and at \<open>e\<close>; it denies at
  the time of day one minute after \<open>e\<close>; and when \<open>e\<close> is earlier than \<open>s\<close> it denies at
  every time of day.
\<close>

theorem time_window_inclusive:
  assumes "files db fid = Some m"
    and "strptime_HM (access_start_time m) = Inr s"
    and "strptime_HM (access_end_time m) = Inr e"
  shows "(allowed (fst (check_time_based_access fid now db))
            \<longleftrightarrow> time_le s now \<and> time_le now e) \<and>
         (time_le s e \<longrightarrow> allowed (fst (check_time_based_access fid s db)) \<and>
                          allowed (fst (check_time_based_access fid e db))) \<and>
         (plus_one_minute e = Some t \<longrightarrow> \<not> allowed (fst (check_time_based_access fid t db))) \<and>
         (time_lt e s \<longrightarrow> \<not> allowed (fst (check_time_based_access fid now db)))"
proof -
  note iff = check_time_based_access_parsed [OF assms]
  have a: "time_le s e \<longrightarrow> allowed (fst (check_time_based_access fid s db)) \<and>
                          allowed (fst (check_time_based_access fid e db))"
    by (simp add: iff time_le_refl)
  have b: "plus_one_minute e = Some t \<longrightarrow> \<not> allowed (fst (check_time_based_access fid t db))"
    by (simp add: iff plus_one_minute_later)
  have c: "time_lt e s \<longrightarrow> \<not> allowed (fst (check_time_based_access fid now db))"
  proof
    assume inv: "time_lt e s"
    show "\<not> allowed (fst (check_time_based_access fid now db))"
    proof
      assume "allowed (fst (check_time_based_access fid now db))"
      then have "time_le s now" "time_le now e" by (simp_all add: iff)
      then have "time_le s e" by (rule time_le_trans)
      moreover from inv have "time_le e s" "e \<noteq> s" by (simp_all add: time_lt_def)
      ultimately show False using time_le_antisym by blast
    qed
  qed
  from iff a b c show ?thesis by blast
qed

text \<open>The sample policy, open from 09:00 to 18:00: allowed at both ends, denied at 18:01.\<close>

theorem time_window_inclusive_witness:
  "files example_db ''doc'' = Some example_policy \<and>
   strptime_HM (access_start_time example_policy) = Inr (at_time 9 0) \<and>
   strptime_HM (access_end_time example_policy) = Inr (at_time 18 0) \<and>
   time_le (at_time 9 0) (at_time 18 0) \<and>
   plus_one_minute (at_time 18 0) = Some (at_time 18 1) \<and>
   allowed (fst (check_time_based_access ''doc'' (at_time 9 0) example_db)) \<and>
   allowed (fst (check_time_based_access ''doc'' (at_time 18 0) example_db)) \<and>
   \<not> allowed (fst (check_time_based_access ''doc'' (at_time 18 1) example_db))"
proof -
  have f: "files example_db ''doc'' = Some example_policy"
    by (simp add: example_db_def)
  have s: "strptime_HM (access_start_time example_policy) = Inr (at_time 9 0)"
    by code_simp
  have e: "strptime_HM (access_end_time example_policy) = Inr (at_time 18 0)"
    by code_simp
  have le: "time_le (at_time 9 0) (at_time 18 0)"
    by (simp add: time_le_def at_time_def)
  have p: "plus_one_minute (at_time 18 0) = Some (at_time 18 1)"
    by (simp add: plus_one_minute_def at_time_def)
  from time_window_inclusive [OF f s e, of "at_time 9 0" "at_time 18 1"] f s e le p
  show ?thesis by blast
qed

text \<open>
  C6. For a policy whose start or end string \<open>strptime\<close> rejects, the time gate returns a
  denial whose reason is the invalid-time-format text followed by the message of the
  exception, with \<open>check = time_based\<close>. The exception is caught inside the gate: the gate
  returns a result.
\<close>

theorem time_window_parse_failure:
  assumes "files db fid = Some m"
    and "(\<exists>x. strptime_HM (access_start_time m) = Inl x) \<or>
         (\<exists>x. strptime_HM (access_end_time m) = Inl x)"
  shows "\<exists>e. parse_window m = Inl e \<and>
           fst (check_time_based_access fid now db) =
             \<lparr>allowed = False,
              reason = ''Invalid time format in file metadata: '' @ str_exception e,
              check = ''time_based'', current_time = None, location = None\<rparr>"
proof -
  have "\<exists>e. parse_window m = Inl e"
  proof (cases "strptime_HM (access_start_time m)")
    case (Inl x)
    then show ?thesis by (simp add: parse_window_def)
  next
    case (Inr s)
    with assms(2) obtain x where "strptime_HM (access_end_time m) = Inl x" by auto
    with Inr show ?thesis by (simp add: parse_window_def)
  qed
  then obtain e where "parse_window m = Inl e" ..
  with assms(1) show ?thesis
    by (simp add: check_time_based_access_def get_file_metadata_def)
qed

text \<open>A policy whose window ends at ``24:00'': no such hour, so the gate denies.\<close>

theorem time_window_parse_failure_witness:
  "files bad_window_db ''doc'' = Some (example_policy\<lparr>access_end_time := ''24:00''\<rparr>) \<and>
   (\<exists>x. strptime_HM (access_end_time (example_policy\<lparr>access_end_time := ''24:00''\<rparr>)) = Inl x) \<and>
   \<not> allowed (fst (check_time_based_access ''doc'' (at_time 10 0) bad_window_db)) \<and>
   check (fst (check_time_based_access ''doc'' (at_time 10 0) bad_window_db)) = ''time_based'' \<and>
   take 38 (reason (fst (check_time_based_access ''doc'' (at_time 10 0) bad_window_db)))
     = ''Invalid time format in file metadata: ''"
proof -
  have f: "files bad_window_db ''doc'' = Some (example_policy\<lparr>access_end_time := ''24:00''\<rparr>)"
    by (simp add: bad_window_db_def)
  have p: "strptime_HM ''24:00'' = Inl (ValueError (''time data '' @ py_repr ''24:00'' @
             '' does not match format '' @ py_repr ''%H:%M''))"
    by code_simp
  then have x: "\<exists>x. strptime_HM (access_end_time (example_policy\<lparr>access_end_time := ''24:00''\<rparr>)) = Inl x"
    by simp
  from time_window_parse_failure [OF f disjI2 [OF x], of "at_time 10 0"] f x
  show ?thesis by auto
qed

subsection \<open>The region gate\<close>

lemma get_location_from_ip_failures:
  assumes "ip_addr \<notin> set [''127.0.0.1'', ''localhost'']" and "\<not> startswith ip_addr ''192.168.''"
  shows "lookup ip_addr = Request_error e \<Longrightarrow>
           get_location_from_ip lookup ip_addr =
             Lookup_failed (''Location lookup failed: '' @ e) ip_addr"
    and "lookup ip_addr = Response code body \<Longrightarrow> code \<noteq> 200 \<Longrightarrow>
           get_location_from_ip lookup ip_addr =
             Lookup_failed ''Failed to get location data'' ip_addr"
    and "lookup ip_addr = Response 200 (Not_json e) \<Longrightarrow>
           get_location_from_ip lookup ip_addr =
             Lookup_failed (''Location lookup failed: '' @ e) ip_addr"
    and "lookup ip_addr = Response 200 (Json_object data) \<Longrightarrow> map_of data ''status'' = Some st
           \<Longrightarrow> st \<noteq> ''success'' \<Longrightarrow>
           get_location_from_ip lookup ip_addr =
             Lookup_failed ''Failed to get location data'' ip_addr"
  using assms by (simp_all add: get_location_from_ip_def)

lemma check_location_based_access_failed:
  assumes "files db fid = Some m"
    and "get_location_from_ip lookup ip_addr = Lookup_failed r a"
  shows "fst (check_location_based_access fid ip_addr lookup db) =
           \<lparr>allowed = False, reason = r, check = ''location_based'',
            current_time = None, location = None\<rparr>"
  using assms by (simp add: check_location_based_access_def get_file_metadata_def)

text \<open>
  C2. For an existing policy, whenever the resolver reports failure the region gate
  returns a denial carrying the resolver's reason and \<open>check = location_based\<close>; the gate
  allows only when the resolver succeeded. For an address that is looked up, an exception
  of the request (timeout, transport error), a status code other than 200 and an answer
  whose status is not \<open>success\<close> each end in a denial.
\<close>

theorem region_gate_fails_closed:
  assumes "files db fid = Some m"
  shows "(get_location_from_ip lookup ip_addr = Lookup_failed r a \<longrightarrow>
            fst (check_location_based_access fid ip_addr lookup db) =
              \<lparr>allowed = False, reason = r, check = ''location_based'',
               current_time = None, location = None\<rparr>) \<and>
         (allowed (fst (check_location_based_access fid ip_addr lookup db)) \<longrightarrow>
            (\<exists>cc cn ct rg a' loc.
               get_location_from_ip lookup ip_addr = Located cc cn ct rg a' loc)) \<and>
         (ip_addr \<notin> set [''127.0.0.1'', ''localhost''] \<and> \<not> startswith ip_addr ''192.168.'' \<and>
          ((\<exists>e. lookup ip_addr = Request_error e) \<or>
           (\<exists>code body. lookup ip_addr = Response code body \<and> code \<noteq> 200) \<or>
           (\<exists>data st. lookup ip_addr = Response 200 (Json_object data) \<and>
                      map_of data ''status'' = Some st \<and> st \<noteq> ''success''))
          \<longrightarrow> \<not> allowed (fst (check_location_based_access fid ip_addr lookup db)))"
proof -
  note deny = check_location_based_access_failed [OF assms]
  have a: "get_location_from_ip lookup ip_addr = Lookup_failed r a \<longrightarrow>
            fst (check_location_based_access fid ip_addr lookup db) =
              \<lparr>allowed = False, reason = r, check = ''location_based'',
               current_time = None, location = None\<rparr>"
    by (simp add: deny)
  have b: "allowed (fst (check_location_based_access fid ip_addr lookup db)) \<longrightarrow>
            (\<exists>cc cn ct rg a' loc.
               get_location_from_ip lookup ip_addr = Located cc cn ct rg a' loc)"
  proof (cases "get_location_from_ip lookup ip_addr")
    case (Located cc cn ct rg a' loc)
    then show ?thesis by simp
  next
    case (Lookup_failed r' a')
    then show ?thesis by (simp add: deny)
  qed
  have c: "ip_addr \<notin> set [''127.0.0.1'', ''localhost''] \<and> \<not> startswith ip_addr ''192.168.'' \<and>
          ((\<exists>e. lookup ip_addr = Request_error e) \<or>
           (\<exists>code body. lookup ip_addr = Response code body \<and> code \<noteq> 200) \<or>
           (\<exists>data st. lookup ip_addr = Response 200 (Json_object data) \<and>
                      map_of data ''status'' = Some st \<and> st \<noteq> ''success''))
          \<longrightarrow> \<not> allowed (fst (check_location_based_access fid ip_addr lookup db))"
  proof
    assume h: "ip_addr \<notin> set [''127.0.0.1'', ''localhost''] \<and> \<not> startswith ip_addr ''192.168.'' \<and>
          ((\<exists>e. lookup ip_addr = Request_error e) \<or>
           (\<exists>code body. lookup ip_addr = Response code body \<and> code \<noteq> 200) \<or>
           (\<exists>data st. lookup ip_addr = Response 200 (Json_object data) \<and>
                      map_of data ''status'' = Some st \<and> st \<noteq> ''success''))"
    then have far: "ip_addr \<notin> set [''127.0.0.1'', ''localhost'']" "\<not> startswith ip_addr ''192.168.''"
      by simp_all
    from h have "\<exists>r'. get_location_from_ip lookup ip_addr = Lookup_failed r' ip_addr"
      using get_location_from_ip_failures [OF far] by blast
    then show "\<not> allowed (fst (check_location_based_access fid ip_addr lookup db))"
      by (auto simp: deny)
  qed
  from a b c show ?thesis by blast
qed

text \<open>The lookup times out for a public address: the gate denies with the resolver's text.\<close>

theorem region_gate_fails_closed_witness:
  "files example_db ''doc'' = Some example_policy \<and>
   ''203.0.113.5'' \<notin> set [''127.0.0.1'', ''localhost''] \<and>
   \<not> startswith ''203.0.113.5'' ''192.168.'' \<and>
   (\<exists>e. no_network ''203.0.113.5'' = Request_error e) \<and>
   get_location_from_ip no_network ''203.0.113.5'' =
     Lookup_failed ''Location lookup failed: connection timed out'' ''203.0.113.5'' \<and>
   fst (check_location_based_access ''doc'' ''203.0.113.5'' no_network example_db) =
     \<lparr>allowed = False, reason = ''Location lookup failed: connection timed out'',
      check = ''location_based'', current_time = None, location = None\<rparr>"
proof -
  have f: "files example_db ''doc'' = Some example_policy"
    by (simp add: example_db_def)
  have g: "get_location_from_ip no_network ''203.0.113.5'' =
     Lookup_failed ''Location lookup failed: connection timed out'' ''203.0.113.5''"
    by code_simp
  have far: "''203.0.113.5'' \<notin> set [''127.0.0.1'', ''localhost'']"
    "\<not> startswith ''203.0.113.5'' ''192.168.''"
    by (simp_all add: startswith_def)
  have n: "\<exists>e. no_network ''203.0.113.5'' = Request_error e"
    by (simp add: no_network_def)
  from region_gate_fails_closed [OF f, of no_network "''203.0.113.5''"
      "''Location lookup failed: connection timed out''" "''203.0.113.5''"] f g far n
  show ?thesis by blast
qed

text \<open>
  For the origins the resolver itself treats as local, no lookup is made and the gate
  depends only on whether \<open>IN\<close> is an allowed region.
\<close>

lemma local_origin_trusted:
  assumes "ip_addr \<in> set [''127.0.0.1'', ''localhost''] \<or> startswith ip_addr ''192.168.''"
  shows "get_location_from_ip lookup ip_addr = Located ''IN'' ''India'' ''Local'' None ip_addr True"
    and "files db fid = Some m \<Longrightarrow>
           allowed (fst (check_location_based_access fid ip_addr lookup db))
             \<longleftrightarrow> ''IN'' \<in> set (allowed_regions m)"
  using assms
  by (auto simp: get_location_from_ip_def check_location_based_access_def get_file_metadata_def)

text \<open>
  C8. The resolver short-circuits only for \<open>127.0.0.1\<close>, \<open>localhost\<close> and addresses
  starting with \<open>192.168.\<close>. The private-range address 10.0.0.1 and the loopback address
  127.0.0.2 are sent to the geolocation service: with the service's answer for a private
  range, or with no network, the resolver reports failure, and the region gate denies a
  policy that allows the trusted region \<open>IN\<close>.
\<close>

theorem private_range_origin_looked_up:
  "get_location_from_ip private_range_reply ''10.0.0.1''
     = Lookup_failed ''Failed to get location data'' ''10.0.0.1'' \<and>
   get_location_from_ip no_network ''10.0.0.1''
     = Lookup_failed ''Location lookup failed: connection timed out'' ''10.0.0.1'' \<and>
   get_location_from_ip private_range_reply ''127.0.0.2''
     = Lookup_failed ''Failed to get location data'' ''127.0.0.2'' \<and>
   ''IN'' \<in> set (allowed_regions example_policy) \<and>
   fst (check_location_based_access ''doc'' ''10.0.0.1'' private_range_reply example_db)
     = \<lparr>allowed = False, reason = ''Failed to get location data'',
        check = ''location_based'', current_time = None, location = None\<rparr>"
  by code_simp

subsection \<open>A file id with no policy\<close>

text \<open>
  C5, as amended. When no policy exists for the file id, each gate returns a denial with
  the reason \<open>File not found\<close>; the \<open>check\<close> field is \<open>file_exists\<close> for
  \<open>check_user_permission\<close>, \<open>time_based\<close> for \<open>check_time_based_access\<close> and
  \<open>location_based\<close> for \<open>check_location_based_access\<close>.
\<close>

theorem absent_policy_results:
  assumes "files db fid = None"
  shows "fst (check_user_permission user fid db) =
           \<lparr>allowed = False, reason = ''File not found'', check = ''file_exists'',
            current_time = None, location = None\<rparr> \<and>
         fst (check_time_based_access fid now db) =
           \<lparr>allowed = False, reason = ''File not found'', check = ''time_based'',
            current_time = None, location = None\<rparr> \<and>
         fst (check_location_based_access fid ip_addr lookup db) =
           \<lparr>allowed = False, reason = ''File not found'', check = ''location_based'',
            current_time = None, location = None\<rparr>"
  using assms
  by (simp add: check_user_permission_def check_time_based_access_def
      check_location_based_access_def get_file_metadata_def)

theorem absent_policy_results_witness:
  "files empty_db ''doc'' = None \<and>
   check (fst (check_user_permission ''alice'' ''doc'' empty_db)) = ''file_exists'' \<and>
   check (fst (check_time_based_access ''doc'' (at_time 10 0) empty_db)) = ''time_based'' \<and>
   check (fst (check_location_based_access ''doc'' ''127.0.0.1'' no_network empty_db))
     = ''location_based''"
proof -
  have f: "files empty_db ''doc'' = None" by (simp add: empty_db_def)
  from absent_policy_results [OF f, of "''alice''" "at_time 10 0" "''127.0.0.1''" no_network] f
  show ?thesis by simp
qed

text \<open>
  C5 as stated fails: on a store without the policy, the \<open>check\<close> field of the identity
  gate is not the gate's name \<open>user_permission\<close>.
\<close>

theorem absent_policy_identity_check_counterexample:
  "files empty_db ''doc'' = None \<and>
   check (fst (check_user_permission ''alice'' ''doc'' empty_db)) \<noteq> ''user_permission''"
  by (simp add: empty_db_def check_user_permission_def get_file_metadata_def)

subsection \<open>The audit log\<close>

lemma slice_from_last: "0 < n \<Longrightarrow> slice_from xs (- int n) = drop (length xs - n) xs"
  by (auto simp: slice_from_def nat_diff_distrib')

lemma log_event_logs:
  "audit_logs (log_event etype user fid dets origin ok now db) =
     drop (length (audit_logs db) + 1 - 1000)
       (audit_logs db @ [\<lparr>log_timestamp = now, event_type = etype, log_username = user,
          log_file_id = fid, log_ip_address = origin, log_success = ok,
          details = get_default dets []\<rparr>])"
proof -
  have "slice_from xs (- 1000) = drop (length xs - 1000) xs" for xs :: "log_entry list"
    using slice_from_last [of 1000 xs] by simp
  then show ?thesis
    by (simp add: log_event_def Let_def)
qed

lemma log_call_logs:
  "audit_logs (log_call c db) =
     drop (length (audit_logs db) + 1 - 1000) (audit_logs db @ [entry_of c])"
  by (simp add: log_call_def entry_of_def log_event_logs)

text \<open>One more call on a log within the cap: the oldest entry goes when the log is full.\<close>

lemma drop_step:
  assumes "length xs \<le> 1000"
  shows "drop (length (drop (length xs + 1 - 1000) (xs @ [e])) + m - 1000)
           (drop (length xs + 1 - 1000) (xs @ [e]) @ ys)
         = drop (length xs + Suc m - 1000) (xs @ e # ys)"
proof (cases "length xs < 1000")
  case True
  then show ?thesis by simp
next
  case False
  with assms have n: "length xs = 1000" by simp
  then have "xs \<noteq> []" by auto
  then obtain x xs' where xs: "xs = x # xs'" by (cases xs) auto
  with n have "length xs' = 999" by simp
  with xs show ?thesis by simp
qed

lemma log_calls_logs:
  "length (audit_logs db) \<le> 1000 \<Longrightarrow>
   audit_logs (log_calls cs db) =
     drop (length (audit_logs db) + length cs - 1000) (audit_logs db @ map entry_of cs)"
proof (induction cs arbitrary: db)
  case Nil
  then show ?case by (simp add: log_calls_def)
next
  case (Cons c cs)
  let ?db = "log_call c db"
  have len: "length (audit_logs ?db) \<le> 1000"
    using Cons.prems by (simp add: log_call_logs)
  have "audit_logs (log_calls (c # cs) db) = audit_logs (log_calls cs ?db)"
    by (simp add: log_calls_def)
  also have "\<dots> = drop (length (audit_logs ?db) + length cs - 1000)
                     (audit_logs ?db @ map entry_of cs)"
    by (rule Cons.IH [OF len])
  also have "\<dots> = drop (length (audit_logs db) + length (c # cs) - 1000)
                     (audit_logs db @ map entry_of (c # cs))"
    unfolding log_call_logs using drop_step [OF Cons.prems] by simp
  finally show ?case .
qed

lemma log_calls_length:
  assumes "length (audit_logs db) \<le> 1000"
  shows "length (audit_logs (log_calls cs db)) \<le> 1000"
proof -
  have "length (audit_logs (log_calls cs db)) =
        length (audit_logs db) + length cs - (length (audit_logs db) + length cs - 1000)"
    by (simp add: log_calls_logs [OF assms])
  then show ?thesis by arith
qed

text \<open>
  C4. \<open>log_event\<close> appends the new entry and then keeps the last 1000 entries, so the log
  it writes never holds more than 1000. A run of calls on a log within the cap stays
  within the cap, and after \<open>1000 + k\<close> calls on an empty log the log holds the entries of
  all but the first \<open>k\<close> calls, in the order of the calls (oldest first).
\<close>

theorem audit_log_bounded:
  "audit_logs (log_event etype user fid dets origin ok now db) =
     drop (length (audit_logs db) + 1 - 1000)
       (audit_logs db @ [\<lparr>log_timestamp = now, event_type = etype, log_username = user,
          log_file_id = fid, log_ip_address = origin, log_success = ok,
          details = get_default dets []\<rparr>]) \<and>
   length (audit_logs (log_event etype user fid dets origin ok now db)) \<le> 1000 \<and>
   (length (audit_logs db) \<le> 1000 \<longrightarrow> length (audit_logs (log_calls cs db)) \<le> 1000) \<and>
   (audit_logs db = [] \<and> length cs = 1000 + k \<longrightarrow>
      audit_logs (log_calls cs db) = drop k (map entry_of cs))"
proof -
  have a: "length (audit_logs (log_event etype user fid dets origin ok now db)) \<le> 1000"
    by (simp add: log_event_logs)
  have b: "length (audit_logs db) \<le> 1000 \<longrightarrow> length (audit_logs (log_calls cs db)) \<le> 1000"
    by (simp add: log_calls_length)
  have c: "audit_logs db = [] \<and> length cs = 1000 + k \<longrightarrow>
      audit_logs (log_calls cs db) = drop k (map entry_of cs)"
    by (simp add: log_calls_logs)
  from log_event_logs a b c show ?thesis by blast
qed

text \<open>1002 calls on the empty log of the sample store: the first two entries are gone.\<close>

theorem audit_log_bounded_witness:
  "length (audit_logs example_db) \<le> 1000 \<and>
   audit_logs example_db = [] \<and>
   length (map sample_call [0..<1002]) = 1000 + 2 \<and>
   length (audit_logs (log_calls (map sample_call [0..<1002]) example_db)) \<le> 1000 \<and>
   audit_logs (log_calls (map sample_call [0..<1002]) example_db)
     = drop 2 (map entry_of (map sample_call [0..<1002]))"
proof -
  have e: "audit_logs example_db = []" by (simp add: example_db_def)
  then have n: "length (audit_logs example_db) \<le> 1000" by simp
  have l: "length (map sample_call [0..<1002]) = 1000 + 2" by simp
  from audit_log_bounded [of "''x''" "''y''" None None None True "''z''" example_db
      "map sample_call [0..<1002]" 2] e n l
  show ?thesis by blast
qed

text \<open>
  With a positive limit, \<open>get_audit_logs\<close> returns at most \<open>limit\<close> entries, each of them
  passing every filter in force, and they are the last matches of the log, newest first.
\<close>

lemma get_audit_logs_positive_limit:
  assumes "0 < limit"
  shows "length (fst (get_audit_logs user fid limit db)) \<le> nat limit"
    and "l \<in> set (fst (get_audit_logs user fid limit db)) \<Longrightarrow>
           l \<in> set (audit_logs db) \<and>
           (truthy user \<longrightarrow> Some (log_username l) = user) \<and>
           (truthy fid \<longrightarrow> log_file_id l = fid)"
    and "fst (get_audit_logs user fid limit db) =
           (let matches = filter (\<lambda>l. (truthy user \<longrightarrow> Some (log_username l) = user) \<and>
                                       (truthy fid \<longrightarrow> log_file_id l = fid)) (audit_logs db)
            in rev (drop (length matches - nat limit) matches))"
proof -
  from assms have lim: "- limit = - int (nat limit)" "0 < nat limit" by simp_all
  have sl: "slice_from xs (- limit) = drop (length xs - nat limit) xs" for xs :: "log_entry list"
    unfolding lim(1) by (rule slice_from_last) (rule lim(2))
  show "length (fst (get_audit_logs user fid limit db)) \<le> nat limit"
    using lim(2) by (simp add: get_audit_logs_def Let_def sl)
  show "fst (get_audit_logs user fid limit db) =
           (let matches = filter (\<lambda>l. (truthy user \<longrightarrow> Some (log_username l) = user) \<and>
                                       (truthy fid \<longrightarrow> log_file_id l = fid)) (audit_logs db)
            in rev (drop (length matches - nat limit) matches))"
    by (simp add: get_audit_logs_def Let_def sl)
  show "l \<in> set (fst (get_audit_logs user fid limit db)) \<Longrightarrow>
           l \<in> set (audit_logs db) \<and>
           (truthy user \<longrightarrow> Some (log_username l) = user) \<and>
           (truthy fid \<longrightarrow> log_file_id l = fid)"
    by (auto simp: get_audit_logs_def Let_def sl split: if_splits dest!: in_set_dropD)
qed

text \<open>
  C7. With \<open>limit = 0\<close> the slice \<open>[-0:]\<close> is the whole list: on a log of two entries
  \<open>get_audit_logs\<close> returns both, newest first, where at most zero entries were due.
\<close>

theorem get_audit_logs_limit_zero:
  "fst (get_audit_logs None None 0 two_entry_db)
     = [entry_of (sample_call 1), entry_of (sample_call 0)] \<and>
   length (fst (get_audit_logs None None 0 two_entry_db)) = 2"
  by (simp add: get_audit_logs_def two_entry_db_def log_calls_def log_call_def log_event_def
      entry_of_def empty_db_def truthy_def slice_from_def Let_def)

subsection \<open>The owner and the allowed users\<close>

lemma save_file_metadata_owner:
  "\<exists>m. files (snd (save_file_metadata fid own fname md now db)) fid = Some m \<and>
        owner m = own \<and> owner m \<in> set (allowed_users m)"
  by (simp add: save_file_metadata_def)

lemma update_file_access_keeps_owner:
  assumes "files db fid = Some m" and "owner m \<in> set (allowed_users m)"
    and "users = None \<or> (\<exists>us. users = Some us \<and> owner m \<in> set us)"
  shows "\<exists>m'. files (snd (update_file_access fid users access_times regions db)) fid = Some m' \<and>
           owner m' = owner m \<and> owner m' \<in> set (allowed_users m')"
  using assms
  by (auto simp: update_file_access_def Let_def split: option.splits prod.splits)

text \<open>
  C9. \<open>save_file_metadata\<close> creates the policy with the owner as its only allowed user.
  \<open>update_file_access\<close> stores the list it is given as it is: after an update of alice's
  policy with the list \<open>[bob]\<close>, the owner alice is no longer an allowed user.
\<close>

theorem update_file_access_drops_owner:
  "map_option (\<lambda>m. (owner m, allowed_users m))
     (files (snd (save_file_metadata ''doc'' ''alice'' ''report.pdf'' no_metadata
                    ''2024-01-01T08:00:00'' empty_db)) ''doc'')
     = Some (''alice'', [''alice'']) \<and>
   map_option (\<lambda>m. (owner m, allowed_users m))
     (files (snd (update_file_access ''doc'' (Some [''bob'']) None None
              (snd (save_file_metadata ''doc'' ''alice'' ''report.pdf'' no_metadata
                    ''2024-01-01T08:00:00'' empty_db)))) ''doc'')
     = Some (''alice'', [''bob'']) \<and>
   ''alice'' \<notin> set [''bob'']"
  by (simp add: save_file_metadata_def update_file_access_def empty_db_def no_metadata_def
      get_default_def)

end
